theory Spec2Isabelle
  imports Complex_Main
begin

section \<open>Cells, data frames and Python's view of them\<close>

text \<open>
  A cell is what \<^verbatim>\<open>df.iat[row, col]\<close> hands to the Python code: an integer
  (\<^verbatim>\<open>np.int64\<close>), a finite float given by its exact value, the float NaN that
  pandas stores for a missing field, a string, or \<^verbatim>\<open>None\<close>.  The value
  \<^verbatim>\<open>None\<close> is also what the local function \<^verbatim>\<open>val\<close> of
  \<^verbatim>\<open>filterAcceptsRow\<close> returns for a column that the frame does not have.
  A character of a string is a code point below 256 (Latin-1).
\<close>

datatype cell = IntC int | FloatC real | NaNC | StrC string | NoneC

datatype error = IndexError | KeyError string | TypeError | ValueError

record dataframe =
  columns :: "string list"
  rows :: "cell list list"

text \<open>Every row of a frame has one cell per column.\<close>

definition rectangular :: "dataframe \<Rightarrow> bool" where
  "rectangular df = list_all (\<lambda>r. length r = length (columns df)) (rows df)"

text \<open>\<^verbatim>\<open>list(...).index(name)\<close>: the first position of a name, if any.\<close>

fun index_of :: "'a list \<Rightarrow> 'a \<Rightarrow> nat option" where
  "index_of [] a = None"
| "index_of (x # xs) a = (if x = a then Some 0 else map_option Suc (index_of xs a))"

text \<open>\<^verbatim>\<open>df.iat[r, c]\<close> raises \<^verbatim>\<open>IndexError\<close> outside the frame.\<close>

definition iat :: "dataframe \<Rightarrow> nat \<Rightarrow> nat \<Rightarrow> error + cell" where
  "iat df r c =
     (if r < length (rows df) \<and> c < length (rows df ! r) then Inr (rows df ! r ! c)
      else Inl IndexError)"

text \<open>
  \<^verbatim>\<open>isinstance(v, (int, float, np.integer, np.floating))\<close>; NaN is a float.
\<close>

fun is_number :: "cell \<Rightarrow> bool" where
  "is_number (IntC i) = True"
| "is_number (FloatC x) = True"
| "is_number NaNC = True"
| "is_number (StrC s) = False"
| "is_number NoneC = False"

text \<open>
  Python's \<^verbatim>\<open><\<close>, \<^verbatim>\<open>></\<close>, \<^verbatim>\<open>>=\<close> and \<^verbatim>\<open><=\<close> between a number cell and a float
  bound.  Every comparison with NaN is false.  They are only applied to number cells.
\<close>

fun py_lt :: "cell \<Rightarrow> real \<Rightarrow> bool" where
  "py_lt (IntC i) m = (of_int i < m)"
| "py_lt (FloatC x) m = (x < m)"
| "py_lt c m = False"

fun py_gt :: "cell \<Rightarrow> real \<Rightarrow> bool" where
  "py_gt (IntC i) m = (of_int i > m)"
| "py_gt (FloatC x) m = (x > m)"
| "py_gt c m = False"



text \<open>Truth value of a cell, as \<^verbatim>\<open>or\<close> tests it: zero, the empty string and
  \<^verbatim>\<open>None\<close> are false, NaN is true.\<close>

fun truthy :: "cell \<Rightarrow> bool" where
  "truthy (IntC i) = (i \<noteq> 0)"
| "truthy (FloatC x) = (x \<noteq> 0)"
| "truthy NaNC = True"
| "truthy (StrC s) = (s \<noteq> [])"
| "truthy NoneC = False"

subsection \<open>Text of a cell\<close>

definition digit_char :: "nat \<Rightarrow> char" where
  "digit_char d = ''0123456789'' ! d"

fun nat_digits :: "nat \<Rightarrow> string" where
  "nat_digits n =
     (if n < 10 then [digit_char n] else nat_digits (n div 10) @ [digit_char (n mod 10)])"

declare nat_digits.simps [simp del]

definition int_str :: "int \<Rightarrow> string" where
  "int_str i = (if i < 0 then CHR ''-'' # nat_digits (nat (- i)) else nat_digits (nat i))"

text \<open>
  \<^verbatim>\<open>str(v)\<close>.  The shortest decimal that reads back as a given float is computed by
  the Python runtime; it is the parameter \<open>fr\<close>.
\<close>

fun py_str :: "(real \<Rightarrow> string) \<Rightarrow> cell \<Rightarrow> string" where
  "py_str fr (IntC i) = int_str i"
| "py_str fr (FloatC x) = fr x"
| "py_str fr NaNC = ''nan''"
| "py_str fr (StrC s) = s"
| "py_str fr NoneC = ''None''"

text \<open>\<^verbatim>\<open>str(v or "")\<close>\<close>

definition str_or_empty :: "(real \<Rightarrow> string) \<Rightarrow> cell \<Rightarrow> string" where
  "str_or_empty fr v = (if truthy v then py_str fr v else [])"

text \<open>
  \<^verbatim>\<open>s.lower()\<close>.  Below 256 the characters that Python changes are the letters
  \<^verbatim>\<open>A\<close> to \<^verbatim>\<open>Z\<close> (65 to 90) and the capital letters of Latin-1 (192 to 222, without
  the multiplication sign 215); each moves up by 32.
\<close>

definition lower_char :: "char \<Rightarrow> char" where
  "lower_char c =
     (let n = (of_char c :: nat)
      in if (65 \<le> n \<and> n \<le> 90) \<or> (192 \<le> n \<and> n \<le> 222 \<and> n \<noteq> 215) then char_of (n + 32) else c)"

definition lower :: "string \<Rightarrow> string" where
  "lower s = map lower_char s"

text \<open>\<^verbatim>\<open>a in b\<close> for strings: \<open>a\<close> occurs in \<open>b\<close> as a contiguous piece.\<close>

fun starts_with :: "'a list \<Rightarrow> 'a list \<Rightarrow> bool" where
  "starts_with [] ys = True"
| "starts_with (x # xs) [] = False"
| "starts_with (x # xs) (y # ys) = (x = y \<and> starts_with xs ys)"

fun py_in :: "'a list \<Rightarrow> 'a list \<Rightarrow> bool" where
  "py_in xs [] = (xs = [])"
| "py_in xs (y # ys) = (starts_with xs (y # ys) \<or> py_in xs ys)"

text \<open>\<^verbatim>\<open>s.strip()\<close>: the characters for which \<^verbatim>\<open>str.isspace\<close> holds, below 256.\<close>

definition is_space :: "char \<Rightarrow> bool" where
  "is_space c = ((of_char c :: nat) \<in> {9, 10, 11, 12, 13, 28, 29, 30, 31, 32, 133, 160})"

definition strip :: "string \<Rightarrow> string" where
  "strip s = rev (dropWhile is_space (rev (dropWhile is_space s)))"

section \<open>The filter proxy of the Exploration tab\<close>

record proxy =
  sourceModel :: "dataframe option"
  min_price :: "real option"
  max_price :: "real option"
  min_space :: "real option"
  max_space :: "real option"
  min_beds :: "real option"
  max_beds :: "real option"
  city_substr :: string
  state_exact :: string
  min_income :: "real option"
  max_income :: "real option"
  search_text :: string

text \<open>\<^verbatim>\<open>RealEstateFilterProxy.__init__\<close>, with the model that
  \<^verbatim>\<open>setSourceModel\<close> installs.\<close>

definition new_proxy :: "dataframe option \<Rightarrow> proxy" where
  "new_proxy m =
     \<lparr>sourceModel = m, min_price = None, max_price = None, min_space = None,
      max_space = None, min_beds = None, max_beds = None, city_substr = [],
      state_exact = [], min_income = None, max_income = None, search_text = []\<rparr>"

text \<open>\<^verbatim>\<open>_col\<close>: the position of a column, \<open>None\<close> standing for \<open>-1\<close>.\<close>

definition proxy_col :: "proxy \<Rightarrow> string \<Rightarrow> nat option" where
  "proxy_col p name =
     (case sourceModel p of None \<Rightarrow> None | Some df \<Rightarrow> index_of (columns df) name)"

text \<open>The local function \<^verbatim>\<open>val\<close> of \<^verbatim>\<open>filterAcceptsRow\<close>.\<close>

definition val :: "proxy \<Rightarrow> dataframe \<Rightarrow> nat \<Rightarrow> string \<Rightarrow> error + cell" where
  "val p df source_row col_name =
     (case proxy_col p col_name of None \<Rightarrow> Inr NoneC | Some col_idx \<Rightarrow> iat df source_row col_idx)"

text \<open>
  One numeric block of \<^verbatim>\<open>filterAcceptsRow\<close>:
  \<^verbatim>\<open>
  if v is not None and isinstance(v, (int, float, np.integer, np.floating)):
      if lo is not None and v < lo: return False
      if hi is not None and v > hi: return False
  \<close>
  \<open>range_rejects v lo hi\<close> holds when the block returns \<^verbatim>\<open>False\<close>.
\<close>

definition range_rejects :: "cell \<Rightarrow> real option \<Rightarrow> real option \<Rightarrow> bool" where
  "range_rejects v lo hi =
     (v \<noteq> NoneC \<and> is_number v \<and>
      ((case lo of None \<Rightarrow> False | Some m \<Rightarrow> py_lt v m) \<or>
       (case hi of None \<Rightarrow> False | Some m \<Rightarrow> py_gt v m)))"

text \<open>
  The two substring blocks,
  \<^verbatim>\<open>if needle and needle.lower() not in text.lower(): return False\<close>,
  and the exact block
  \<^verbatim>\<open>if literal and text != literal: return False\<close>.
\<close>

definition substr_rejects :: "string \<Rightarrow> string \<Rightarrow> bool" where
  "substr_rejects needle text = (needle \<noteq> [] \<and> \<not> py_in (lower needle) (lower text))"

definition exact_rejects :: "string \<Rightarrow> string \<Rightarrow> bool" where
  "exact_rejects literal text = (literal \<noteq> [] \<and> text \<noteq> literal)"

text \<open>
  \<^verbatim>\<open>RealEstateFilterProxy.filterAcceptsRow\<close>.  The cells are read in the order of
  the source, so an \<^verbatim>\<open>IndexError\<close> of \<^verbatim>\<open>iat\<close> surfaces where Python raises it.
\<close>

definition filterAcceptsRow :: "(real \<Rightarrow> string) \<Rightarrow> proxy \<Rightarrow> nat \<Rightarrow> error + bool" where
  "filterAcceptsRow fr p source_row =
     (case sourceModel p of
        None \<Rightarrow> Inr True
      | Some df \<Rightarrow>
     (case val p df source_row ''Price'' of Inl e \<Rightarrow> Inl e | Inr price \<Rightarrow>
      if range_rejects price (min_price p) (max_price p) then Inr False else
     (case val p df source_row ''Living Space'' of Inl e \<Rightarrow> Inl e | Inr space \<Rightarrow>
      if range_rejects space (min_space p) (max_space p) then Inr False else
     (case val p df source_row ''Beds'' of Inl e \<Rightarrow> Inl e | Inr beds \<Rightarrow>
      if range_rejects beds (min_beds p) (max_beds p) then Inr False else
     (case val p df source_row ''Median Household Income'' of Inl e \<Rightarrow> Inl e | Inr income \<Rightarrow>
      if range_rejects income (min_income p) (max_income p) then Inr False else
     (case val p df source_row ''City'' of Inl e \<Rightarrow> Inl e | Inr city \<Rightarrow>
      if substr_rejects (city_substr p) (str_or_empty fr city) then Inr False else
     (case val p df source_row ''State'' of Inl e \<Rightarrow> Inl e | Inr state \<Rightarrow>
      if exact_rejects (state_exact p) (str_or_empty fr state) then Inr False else
     (case val p df source_row ''Address'' of Inl e \<Rightarrow> Inl e | Inr address \<Rightarrow>
      if substr_rejects (search_text p) (str_or_empty fr address) then Inr False
      else Inr True))))))))"

subsection \<open>The filter form\<close>

text \<open>The values of the widgets that \<^verbatim>\<open>_on_filters_changed\<close> reads.\<close>

record filter_form =
  spin_min_price :: real
  spin_max_price :: real
  spin_min_space :: real
  spin_max_space :: real
  spin_min_income :: real
  spin_max_income :: real
  spin_min_beds :: real
  spin_max_beds :: real
  edit_city :: string
  combo_state :: string
  edit_search :: string

text \<open>\<^verbatim>\<open>x or None\<close> for a float \<open>x\<close>.\<close>

definition or_None :: "real \<Rightarrow> real option" where
  "or_None x = (if x \<noteq> 0 then Some x else None)"

text \<open>\<^verbatim>\<open>if b == 0: b = None\<close>\<close>

definition zero_to_None :: "real option \<Rightarrow> real option" where
  "zero_to_None b = (if b = Some 0 then None else b)"

definition on_filters_changed :: "filter_form \<Rightarrow> proxy \<Rightarrow> proxy" where
  "on_filters_changed w p =
     p\<lparr>min_price := or_None (spin_min_price w),
       max_price := zero_to_None (or_None (spin_max_price w)),
       min_space := or_None (spin_min_space w),
       max_space := zero_to_None (or_None (spin_max_space w)),
       min_income := or_None (spin_min_income w),
       max_income := zero_to_None (or_None (spin_max_income w)),
       min_beds := or_None (spin_min_beds w),
       max_beds := zero_to_None (or_None (spin_max_beds w)),
       city_substr := strip (edit_city w),
       state_exact := strip (combo_state w),
       search_text := strip (edit_search w)\<rparr>"

text \<open>\<^verbatim>\<open>_reset_filters\<close>: every spin box to 0, every text cleared, then
  \<^verbatim>\<open>_on_filters_changed\<close>.\<close>

definition cleared_form :: filter_form where
  "cleared_form =
     \<lparr>spin_min_price = 0, spin_max_price = 0, spin_min_space = 0, spin_max_space = 0,
      spin_min_income = 0, spin_max_income = 0, spin_min_beds = 0, spin_max_beds = 0,
      edit_city = [], combo_state = [], edit_search = []\<rparr>"

definition reset_filters :: "proxy \<Rightarrow> proxy" where
  "reset_filters p = on_filters_changed cleared_form p"

text \<open>A cell that gives a numeric predicate nothing to compare: the column is absent
  from the frame, or the cell read there is not a number, or it is NaN.\<close>

definition no_number_at :: "proxy \<Rightarrow> dataframe \<Rightarrow> nat \<Rightarrow> string \<Rightarrow> bool" where
  "no_number_at p df r name =
     (index_of (columns df) name = None \<or>
      (case val p df r name of Inr v \<Rightarrow> \<not> is_number v \<or> v = NaNC | Inl e \<Rightarrow> False))"

section \<open>The table model and the order of the view\<close>

subsection \<open>\<^verbatim>\<open>PandasModel.data\<close>\<close>

text \<open>Python's thousands separator: a comma before every group of three digits.\<close>

fun group3 :: "string \<Rightarrow> string" where
  "group3 ds =
     (if length ds \<le> 3 then ds
      else group3 (take (length ds - 3) ds) @ CHR '','' # drop (length ds - 3) ds)"

declare group3.simps [simp del]

text \<open>\<^verbatim>\<open>f"{i:,}"\<close> for an integer.\<close>

definition fmt_int :: "int \<Rightarrow> string" where
  "fmt_int i =
     (if i < 0 then CHR ''-'' # group3 (nat_digits (nat (- i))) else group3 (nat_digits (nat i)))"

text \<open>Rounding to the nearest integer, a tie to the even one, as Python's float
  formatting rounds the exact value of the float.\<close>

definition round_half_even :: "real \<Rightarrow> int" where
  "round_half_even y =
     (let f = \<lfloor>y\<rfloor>; d = y - of_int f
      in if d < 1 / 2 then f else if 1 / 2 < d then f + 1 else if even f then f else f + 1)"

text \<open>\<^verbatim>\<open>f"{x:,.2f}"\<close> and \<^verbatim>\<open>f"{x:,.0f}"\<close> for a finite float; the sign is the sign
  of \<open>x\<close>, also when the digits round to zero.\<close>

definition fmt_2f :: "real \<Rightarrow> string" where
  "fmt_2f x =
     (let n = nat (round_half_even (\<bar>x\<bar> * 100))
      in (if x < 0 then ''-'' else []) @ group3 (nat_digits (n div 100)) @
         [CHR ''.'', digit_char (n mod 100 div 10), digit_char (n mod 10)])"

definition fmt_0f :: "real \<Rightarrow> string" where
  "fmt_0f x =
     (if x < 0 then ''-'' else []) @ group3 (nat_digits (nat (round_half_even \<bar>x\<bar>)))"

text \<open>\<^verbatim>\<open>s.replace(old, new)\<close> for a non-empty \<open>old\<close>: left to right, without overlap.\<close>

fun py_replace :: "string \<Rightarrow> string \<Rightarrow> string \<Rightarrow> string" where
  "py_replace old new [] = []"
| "py_replace old new (c # cs) =
     (if old \<noteq> [] \<and> starts_with old (c # cs)
      then new @ py_replace old new (drop (length old - 1) cs)
      else c # py_replace old new cs)"

text \<open>
  The text that \<^verbatim>\<open>data\<close> returns for a cell:
  \<^verbatim>\<open>
  if isinstance(val, (int, np.integer)):
      return f"{int(val):,}".replace(',', ' ')
  if isinstance(val, (float, np.floating)):
      return f"{float(val):,.2f}".replace(',', ' ').replace('.00', '')
  return str(val)
  \<close>
\<close>

fun display :: "cell \<Rightarrow> string" where
  "display (IntC i) = py_replace '','' '' '' (fmt_int i)"
| "display (FloatC x) = py_replace ''.00'' [] (py_replace '','' '' '' (fmt_2f x))"
| "display NaNC = py_replace ''.00'' [] (py_replace '','' '' '' ''nan'')"
| "display (StrC s) = s"
| "display NoneC = ''None''"

datatype role = DisplayRole | EditRole | OtherRole

text \<open>\<^verbatim>\<open>PandasModel.data\<close>; an index is valid when its row and column lie in the
  frame.\<close>

definition data :: "dataframe \<Rightarrow> nat \<Rightarrow> nat \<Rightarrow> role \<Rightarrow> error + string option" where
  "data df r c rl =
     (if \<not> (r < length (rows df) \<and> c < length (columns df)) then Inr None
      else if rl = DisplayRole \<or> rl = EditRole
      then (case iat df r c of Inl e \<Rightarrow> Inl e | Inr v \<Rightarrow> Inr (Some (display v)))
      else Inr None)"

subsection \<open>Sorting by a column\<close>

text \<open>
  The table is a \<^verbatim>\<open>QTableView\<close> with \<^verbatim>\<open>setSortingEnabled(True)\<close> over the
  proxy; the proxy does not override \<^verbatim>\<open>lessThan\<close> and keeps the default sort role,
  so Qt orders the accepted source rows with a stable sort whose comparison is
  \<^verbatim>\<open>QSortFilterProxyModel::lessThan\<close> on what \<^verbatim>\<open>data\<close> returns for the display
  role.  Those values are strings, which Qt compares by code unit.
\<close>

fun str_less :: "string \<Rightarrow> string \<Rightarrow> bool" where
  "str_less [] [] = False"
| "str_less [] (y # ys) = True"
| "str_less (x # xs) [] = False"
| "str_less (x # xs) (y # ys) =
     ((of_char x :: nat) < of_char y \<or> (x = y \<and> str_less xs ys))"

text \<open>The sort key of a source row; a call of \<^verbatim>\<open>data\<close> that does not return a
  string leaves an invalid variant.\<close>

definition display_key :: "dataframe \<Rightarrow> nat \<Rightarrow> nat \<Rightarrow> string option" where
  "display_key df c r = (case data df r c DisplayRole of Inr (Some s) \<Rightarrow> Some s | _ \<Rightarrow> None)"

text \<open>Qt's comparison of two variants: an invalid left one is never less, an invalid
  right one is greater than every valid one.\<close>

fun variant_less :: "string option \<Rightarrow> string option \<Rightarrow> bool" where
  "variant_less None b = False"
| "variant_less (Some s) None = True"
| "variant_less (Some s) (Some t) = str_less s t"

definition lessThan_rows :: "dataframe \<Rightarrow> nat \<Rightarrow> nat \<Rightarrow> nat \<Rightarrow> bool" where
  "lessThan_rows df c r1 r2 = variant_less (display_key df c r1) (display_key df c r2)"

text \<open>A stable sort by a comparison \<open>lt\<close>: an element is placed before the first
  later element that is not less than it.\<close>

fun insert_by :: "('a \<Rightarrow> 'a \<Rightarrow> bool) \<Rightarrow> 'a \<Rightarrow> 'a list \<Rightarrow> 'a list" where
  "insert_by lt x [] = [x]"
| "insert_by lt x (y # ys) = (if lt y x then y # insert_by lt x ys else x # y # ys)"

fun stable_sort :: "('a \<Rightarrow> 'a \<Rightarrow> bool) \<Rightarrow> 'a list \<Rightarrow> 'a list" where
  "stable_sort lt [] = []"
| "stable_sort lt (x # xs) = insert_by lt x (stable_sort lt xs)"

datatype sort_order = AscendingOrder | DescendingOrder

text \<open>The sort state of the view: no sort column, or a column and a direction.  A
  descending sort is the same stable sort with the comparison turned round.\<close>

type_synonym sort_state = "(nat \<times> sort_order) option"

fun sort_source_rows :: "dataframe \<Rightarrow> sort_state \<Rightarrow> nat list \<Rightarrow> nat list" where
  "sort_source_rows df None rs = rs"
| "sort_source_rows df (Some (c, AscendingOrder)) rs = stable_sort (lessThan_rows df c) rs"
| "sort_source_rows df (Some (c, DescendingOrder)) rs =
     stable_sort (\<lambda>r1 r2. lessThan_rows df c r2 r1) rs"

text \<open>The source rows behind the rows of the proxy, in the order of the view: the rows
  that \<^verbatim>\<open>filterAcceptsRow\<close> accepts, in source order, then sorted.\<close>

definition accepted_rows :: "(real \<Rightarrow> string) \<Rightarrow> proxy \<Rightarrow> nat list" where
  "accepted_rows fr p =
     (case sourceModel p of
        None \<Rightarrow> []
      | Some df \<Rightarrow> filter (\<lambda>r. filterAcceptsRow fr p r = Inr True) [0..<length (rows df)])"

definition proxy_rows :: "(real \<Rightarrow> string) \<Rightarrow> proxy \<Rightarrow> sort_state \<Rightarrow> nat list" where
  "proxy_rows fr p st =
     (case sourceModel p of
        None \<Rightarrow> []
      | Some df \<Rightarrow> sort_source_rows df st (accepted_rows fr p))"

subsection \<open>Export\<close>

text \<open>\<^verbatim>\<open>df.iloc[rows]\<close>: the rows at the given positions, in that order.\<close>

definition iloc :: "dataframe \<Rightarrow> nat list \<Rightarrow> error + dataframe" where
  "iloc df rs =
     (if list_all (\<lambda>r. r < length (rows df)) rs
      then Inr (df\<lparr>rows := map (\<lambda>r. rows df ! r) rs\<rparr>)
      else Inl IndexError)"

text \<open>
  \<^verbatim>\<open>ExplorationTab.export_csv\<close>: the frame handed to \<^verbatim>\<open>to_csv\<close>, or nothing when
  the file dialog returns an empty path.  \<open>df_all\<close> is the frame of the tab's model.
\<close>

definition export_csv ::
  "(real \<Rightarrow> string) \<Rightarrow> dataframe \<Rightarrow> proxy \<Rightarrow> sort_state \<Rightarrow> string \<Rightarrow> error + dataframe option" where
  "export_csv fr df_all p st path =
     (if path = [] then Inr None
      else (case iloc df_all (proxy_rows fr p st) of
              Inl e \<Rightarrow> Inl e
            | Inr df_filtered \<Rightarrow> Inr (Some df_filtered)))"

section \<open>The map views\<close>

text \<open>
  What the two map views take from libraries and cannot be read off the repository:
  Python's \<^verbatim>\<open>str\<close> and \<^verbatim>\<open>float\<close> on text, the regular expression search behind
  \<^verbatim>\<open>Series.str.contains(pat, case=False)\<close> (compiling the pattern may raise), the
  check that \<^verbatim>\<open>folium.Marker\<close> makes of its location (\<open>None\<close>: the marker is built;
  \<open>Some e\<close>: the constructor raises \<open>e\<close>), and the positions that
  \<^verbatim>\<open>DataFrame.sample(n, random_state=42)\<close> draws from a frame of a given length.
\<close>

record runtime =
  float_repr :: "real \<Rightarrow> string"
  float_of_str :: "string \<Rightarrow> cell option"
  re_compile :: "string \<Rightarrow> error + (string \<Rightarrow> bool)"
  new_marker :: "cell \<Rightarrow> cell \<Rightarrow> error option"
  sample_42 :: "nat \<Rightarrow> nat \<Rightarrow> nat list"

text \<open>Sequencing of steps that may raise.\<close>

definition and_then :: "error + 'a \<Rightarrow> ('a \<Rightarrow> error + 'b) \<Rightarrow> error + 'b" where
  "and_then x f = (case x of Inl e \<Rightarrow> Inl e | Inr a \<Rightarrow> f a)"

subsection \<open>\<^verbatim>\<open>CartographyDynamic.filtered_df\<close>\<close>











subsection \<open>Markers and maps\<close>

text \<open>
  A marker keeps the two cells given to \<^verbatim>\<open>folium.Marker\<close> as its location and the
  cells that its popup text is formatted from (Address, City, State, Zip Code, Price,
  Beds, Baths, Living Space).  A map is what \<^verbatim>\<open>folium.Map\<close> was called with, and the
  markers added to its one cluster.
\<close>

record marker =
  lat :: cell
  lon :: cell
  popup :: "cell list"

record folium_map =
  location :: "real \<times> real"
  tiles :: string
  zoom_start :: int
  markers :: "marker list"


text \<open>\<^verbatim>\<open>row[name]\<close> and \<^verbatim>\<open>row.get(name, default)\<close> on a row of a frame.\<close>

definition row_item :: "string list \<Rightarrow> cell list \<Rightarrow> string \<Rightarrow> error + cell" where
  "row_item cols row name =
     (case index_of cols name of None \<Rightarrow> Inl (KeyError name) | Some c \<Rightarrow> Inr (row ! c))"


subsection \<open>\<^verbatim>\<open>CartographyDynamic.update_map\<close>\<close>







subsection \<open>\<^verbatim>\<open>CartographyTab.generate_map\<close>\<close>

text \<open>\<^verbatim>\<open>f"${x:,.0f}"\<close> raises for a cell that is not a number.\<close>

fun fmt_price_raises :: "cell \<Rightarrow> error option" where
  "fmt_price_raises (StrC s) = Some ValueError"
| "fmt_price_raises NoneC = Some TypeError"
| "fmt_price_raises v = None"

text \<open>The popup of the generated map: every field is read with \<^verbatim>\<open>row[name]\<close>, in the
  order of the f-string.\<close>

definition popup_item :: "string list \<Rightarrow> cell list \<Rightarrow> error + cell list" where
  "popup_item cols row =
     and_then (row_item cols row ''Address'') (\<lambda>a.
     and_then (row_item cols row ''City'') (\<lambda>c.
     and_then (row_item cols row ''State'') (\<lambda>s.
     and_then (row_item cols row ''Zip Code'') (\<lambda>z.
     and_then (row_item cols row ''Price'') (\<lambda>p.
     and_then (case fmt_price_raises p of Some e \<Rightarrow> Inl e | None \<Rightarrow> Inr p) (\<lambda>p.
     and_then (row_item cols row ''Beds'') (\<lambda>b.
     and_then (row_item cols row ''Baths'') (\<lambda>t.
     and_then (row_item cols row ''Living Space'') (\<lambda>l.
       Inr [a, c, s, z, p, b, t, l])))))))))"

text \<open>The loop of \<^verbatim>\<open>generate_map\<close>: no \<^verbatim>\<open>try\<close>; any exception leaves the function.\<close>

fun all_markers :: "runtime \<Rightarrow> string list \<Rightarrow> cell list list \<Rightarrow> error + marker list" where
  "all_markers rt cols [] = Inr []"
| "all_markers rt cols (row # rest) =
     and_then (popup_item cols row) (\<lambda>html.
     and_then (row_item cols row ''Latitude'') (\<lambda>la.
     and_then (row_item cols row ''Longitude'') (\<lambda>lo.
     (case new_marker rt la lo of
        Some e \<Rightarrow> Inl e
      | None \<Rightarrow>
          and_then (all_markers rt cols rest) (\<lambda>ms.
            Inr (\<lparr>lat = la, lon = lo, popup = html\<rparr> # ms))))))"

text \<open>\<^verbatim>\<open>_filtered_dataframe\<close>, then the sample, then the loop.  The arguments \<open>n\<close>,
  \<open>tls\<close> and \<open>z\<close> are the values of the sample spin box, the tiles box and the zoom spin
  box.\<close>

definition filtered_dataframe ::
  "(real \<Rightarrow> string) \<Rightarrow> dataframe \<Rightarrow> proxy \<Rightarrow> sort_state \<Rightarrow> error + dataframe" where
  "filtered_dataframe fr df_all p st = iloc df_all (proxy_rows fr p st)"

definition generate_map ::
  "runtime \<Rightarrow> dataframe \<Rightarrow> proxy \<Rightarrow> sort_state \<Rightarrow> nat \<Rightarrow> string \<Rightarrow> int \<Rightarrow> error + folium_map" where
  "generate_map rt df_all p st n tls z =
     and_then (filtered_dataframe (float_repr rt) df_all p st) (\<lambda>df_f.
     and_then (if 0 < n \<and> n < length (rows df_f)
               then iloc df_f (sample_42 rt (length (rows df_f)) n) else Inr df_f) (\<lambda>df_s.
     and_then (all_markers rt (columns df_s) (rows df_s)) (\<lambda>ms.
       Inr \<lparr>location = (39.5, -98.35), tiles = tls, zoom_start = z, markers = ms\<rparr>)))"

section \<open>Fixtures\<close>

text \<open>A stand-in for Python's \<^verbatim>\<open>str\<close> of a float in closed examples: right for a
  float with an integral value below \<open>10^16\<close>, which prints as its digits and
  \<^verbatim>\<open>.0\<close>.\<close>

definition whole_float_str :: "real \<Rightarrow> string" where
  "whole_float_str x = int_str \<lfloor>x\<rfloor> @ ''.0''"

text \<open>A frame without the columns Living Space and Median Household Income, whose only
  row has text for a price and a missing number of beds.\<close>

definition frame_gaps :: dataframe where
  "frame_gaps = \<lparr>columns = [''Price'', ''Beds'', ''City''],
                 rows = [[StrC ''n/a'', NaNC, StrC ''Paris'']]\<rparr>"


text \<open>A form in which every spin box shows 0 and every text field is empty.\<close>

definition unset_form :: "filter_form \<Rightarrow> bool" where
  "unset_form w =
     (spin_min_price w = 0 \<and> spin_max_price w = 0 \<and> spin_min_space w = 0 \<and>
      spin_max_space w = 0 \<and> spin_min_income w = 0 \<and> spin_max_income w = 0 \<and>
      spin_min_beds w = 0 \<and> spin_max_beds w = 0 \<and>
      edit_city w = [] \<and> combo_state w = [] \<and> edit_search w = [])"


definition five_prices :: dataframe where
  "five_prices = \<lparr>columns = [''Price''],
     rows = [[IntC 100000], [IntC 250000], [IntC 99000], [IntC 400000], [IntC 250000]]\<rparr>"




text \<open>A row whose City, State and Address are missing.\<close>

definition nan_row :: dataframe where
  "nan_row = \<lparr>columns = [''City'', ''State'', ''Address''], rows = [[NaNC, NaNC, NaNC]]\<rparr>"










section \<open>Properties of the filter\<close>

lemma val_update [simp]:
  "val (p\<lparr>min_price := a\<rparr>) = val p"
  "val (p\<lparr>max_price := a\<rparr>) = val p"
  "val (p\<lparr>min_space := a\<rparr>) = val p"
  "val (p\<lparr>max_space := a\<rparr>) = val p"
  "val (p\<lparr>min_beds := a\<rparr>) = val p"
  "val (p\<lparr>max_beds := a\<rparr>) = val p"
  "val (p\<lparr>min_income := a\<rparr>) = val p"
  "val (p\<lparr>max_income := a\<rparr>) = val p"
  by (simp_all add: val_def proxy_col_def fun_eq_iff)

lemma no_number_not_rejected:
  "sourceModel p = Some df \<Longrightarrow> no_number_at p df r name \<Longrightarrow> val p df r name = Inr v \<Longrightarrow>
   \<not> range_rejects v lo hi"
  by (cases v) (auto simp: no_number_at_def range_rejects_def val_def proxy_col_def split: option.splits)

lemma no_number_val: 
  "sourceModel p = Some df \<Longrightarrow> no_number_at p df r name \<Longrightarrow> \<exists>v. val p df r name = Inr v"
  by (auto simp: no_number_at_def val_def proxy_col_def split: option.splits sum.splits)

lemma index_of_less: "index_of xs a = Some c \<Longrightarrow> c < length xs"
  by (induction xs arbitrary: c) (auto split: if_splits)

lemma val_in_range:
  assumes "sourceModel p = Some df" "rectangular df" "r < length (rows df)"
  shows "\<exists>v. val p df r name = Inr v"
proof (cases "index_of (columns df) name")
  case None
  then show ?thesis using assms by (simp add: val_def proxy_col_def)
next
  case (Some c)
  have "c < length (columns df)" using Some by (rule index_of_less)
  moreover have "length (rows df ! r) = length (columns df)"
    using assms(2,3) by (simp add: rectangular_def list_all_length)
  ultimately show ?thesis using assms Some by (simp add: val_def proxy_col_def iat_def)
qed

text \<open>Inside a rectangular frame no read raises, and the answer is the conjunction of
  the seven blocks.\<close>

lemma filterAcceptsRow_conj:
  assumes m: "sourceModel p = Some df" and rect: "rectangular df" and r: "r < length (rows df)"
  shows "\<exists>price space beds income city state address.
     val p df r ''Price'' = Inr price \<and> val p df r ''Living Space'' = Inr space \<and>
     val p df r ''Beds'' = Inr beds \<and> val p df r ''Median Household Income'' = Inr income \<and>
     val p df r ''City'' = Inr city \<and> val p df r ''State'' = Inr state \<and>
     val p df r ''Address'' = Inr address \<and>
     filterAcceptsRow fr p r =
       Inr (\<not> range_rejects price (min_price p) (max_price p) \<and>
            \<not> range_rejects space (min_space p) (max_space p) \<and>
            \<not> range_rejects beds (min_beds p) (max_beds p) \<and>
            \<not> range_rejects income (min_income p) (max_income p) \<and>
            \<not> substr_rejects (city_substr p) (str_or_empty fr city) \<and>
            \<not> exact_rejects (state_exact p) (str_or_empty fr state) \<and>
            \<not> substr_rejects (search_text p) (str_or_empty fr address))"
proof -
  obtain price where 1: "val p df r ''Price'' = Inr price"
    using val_in_range [OF m rect r] by blast
  obtain space where 2: "val p df r ''Living Space'' = Inr space"
    using val_in_range [OF m rect r] by blast
  obtain beds where 3: "val p df r ''Beds'' = Inr beds"
    using val_in_range [OF m rect r] by blast
  obtain income where 4: "val p df r ''Median Household Income'' = Inr income"
    using val_in_range [OF m rect r] by blast
  obtain city where 5: "val p df r ''City'' = Inr city"
    using val_in_range [OF m rect r] by blast
  obtain state where 6: "val p df r ''State'' = Inr state"
    using val_in_range [OF m rect r] by blast
  obtain address where 7: "val p df r ''Address'' = Inr address"
    using val_in_range [OF m rect r] by blast
  show ?thesis
    using m 1 2 3 4 5 6 7 by (simp add: filterAcceptsRow_def)
qed

lemma range_rejects_None [simp]: "\<not> range_rejects v None None"
  by (simp add: range_rejects_def)

lemma strip_Nil [simp]: "strip [] = []"
  by (simp add: strip_def)

lemma unset_form_proxy:
  "unset_form w \<Longrightarrow>
   on_filters_changed w p =
     p\<lparr>min_price := None, max_price := None, min_space := None, max_space := None,
       min_income := None, max_income := None, min_beds := None, max_beds := None,
       city_substr := [], state_exact := [], search_text := []\<rparr>"
  by (simp add: unset_form_def on_filters_changed_def or_None_def zero_to_None_def)

lemma unset_accepts:
  assumes u: "unset_form w" and m: "sourceModel p = Some df" and rect: "rectangular df"
    and r: "r < length (rows df)"
  shows "filterAcceptsRow fr (on_filters_changed w p) r = Inr True"
proof -
  let ?q = "on_filters_changed w p"
  have q: "sourceModel ?q = Some df" using m by (simp add: on_filters_changed_def)
  from filterAcceptsRow_conj [OF q rect r, of fr] show ?thesis
    by (auto simp: unset_form_proxy [OF u] substr_rejects_def exact_rejects_def)
qed

lemma and_then_Inr [simp]: "and_then (Inr a) f = f a"
  by (simp add: and_then_def)

lemma and_then_Inl [simp]: "and_then (Inl e) f = Inl e"
  by (simp add: and_then_def)
















lemma frame_gaps_rect: "rectangular frame_gaps"
  by (simp add: rectangular_def frame_gaps_def)

lemma frame_gaps_no_number:
  "no_number_at (new_proxy (Some frame_gaps)) frame_gaps 0 ''Price''"
  "no_number_at (new_proxy (Some frame_gaps)) frame_gaps 0 ''Living Space''"
  "no_number_at (new_proxy (Some frame_gaps)) frame_gaps 0 ''Beds''"
  "no_number_at (new_proxy (Some frame_gaps)) frame_gaps 0 ''Median Household Income''"
  by (simp_all add: no_number_at_def frame_gaps_def new_proxy_def val_def proxy_col_def iat_def)

lemma new_proxy_accepts:
  assumes rect: "rectangular df" and r: "r < length (rows df)"
    and q: "sourceModel q = Some df"
    and t: "city_substr q = []" "state_exact q = []" "search_text q = []"
    and v: "\<And>v. val q df r ''Price'' = Inr v \<Longrightarrow> \<not> range_rejects v (min_price q) (max_price q)"
      "\<And>v. val q df r ''Living Space'' = Inr v \<Longrightarrow> \<not> range_rejects v (min_space q) (max_space q)"
      "\<And>v. val q df r ''Beds'' = Inr v \<Longrightarrow> \<not> range_rejects v (min_beds q) (max_beds q)"
      "\<And>v. val q df r ''Median Household Income'' = Inr v \<Longrightarrow>
         \<not> range_rejects v (min_income q) (max_income q)"
  shows "filterAcceptsRow fr q r = Inr True"
  using filterAcceptsRow_conj [OF q rect r, of fr] t v
  by (auto simp: substr_rejects_def exact_rejects_def)

text \<open>
  Claim C1.  Take a row of the frame and one of the four numeric range predicates (Price,
  Living Space, Beds, Median Household Income).  When the column is absent from the frame,
  or the cell of the row in that column is not a number, or it is the missing value NaN,
  the predicate accepts the row whatever its two bounds are: the answer of
  \<^verbatim>\<open>filterAcceptsRow\<close> is the conjunction of the six other predicates only, and a proxy
  whose only active predicate is that range, with any bounds, answers \<^verbatim>\<open>True\<close>.  No read
  of a cell raises.
\<close>

theorem numeric_predicates_fail_open:
  assumes m: "sourceModel p = Some df" and rect: "rectangular df" and r: "r < length (rows df)"
  shows "\<exists>price space beds income city state address.
     val p df r ''Price'' = Inr price \<and> val p df r ''Living Space'' = Inr space \<and>
     val p df r ''Beds'' = Inr beds \<and> val p df r ''Median Household Income'' = Inr income \<and>
     val p df r ''City'' = Inr city \<and> val p df r ''State'' = Inr state \<and>
     val p df r ''Address'' = Inr address \<and>
     (no_number_at p df r ''Price'' \<longrightarrow>
        filterAcceptsRow fr p r =
          Inr (\<not> range_rejects space (min_space p) (max_space p) \<and>
               \<not> range_rejects beds (min_beds p) (max_beds p) \<and>
               \<not> range_rejects income (min_income p) (max_income p) \<and>
               \<not> substr_rejects (city_substr p) (str_or_empty fr city) \<and>
               \<not> exact_rejects (state_exact p) (str_or_empty fr state) \<and>
               \<not> substr_rejects (search_text p) (str_or_empty fr address)) \<and>
        filterAcceptsRow fr ((new_proxy (Some df))\<lparr>min_price := lo, max_price := hi\<rparr>) r
          = Inr True) \<and>
     (no_number_at p df r ''Living Space'' \<longrightarrow>
        filterAcceptsRow fr p r =
          Inr (\<not> range_rejects price (min_price p) (max_price p) \<and>
               \<not> range_rejects beds (min_beds p) (max_beds p) \<and>
               \<not> range_rejects income (min_income p) (max_income p) \<and>
               \<not> substr_rejects (city_substr p) (str_or_empty fr city) \<and>
               \<not> exact_rejects (state_exact p) (str_or_empty fr state) \<and>
               \<not> substr_rejects (search_text p) (str_or_empty fr address)) \<and>
        filterAcceptsRow fr ((new_proxy (Some df))\<lparr>min_space := lo, max_space := hi\<rparr>) r
          = Inr True) \<and>
     (no_number_at p df r ''Beds'' \<longrightarrow>
        filterAcceptsRow fr p r =
          Inr (\<not> range_rejects price (min_price p) (max_price p) \<and>
               \<not> range_rejects space (min_space p) (max_space p) \<and>
               \<not> range_rejects income (min_income p) (max_income p) \<and>
               \<not> substr_rejects (city_substr p) (str_or_empty fr city) \<and>
               \<not> exact_rejects (state_exact p) (str_or_empty fr state) \<and>
               \<not> substr_rejects (search_text p) (str_or_empty fr address)) \<and>
        filterAcceptsRow fr ((new_proxy (Some df))\<lparr>min_beds := lo, max_beds := hi\<rparr>) r
          = Inr True) \<and>
     (no_number_at p df r ''Median Household Income'' \<longrightarrow>
        filterAcceptsRow fr p r =
          Inr (\<not> range_rejects price (min_price p) (max_price p) \<and>
               \<not> range_rejects space (min_space p) (max_space p) \<and>
               \<not> range_rejects beds (min_beds p) (max_beds p) \<and>
               \<not> substr_rejects (city_substr p) (str_or_empty fr city) \<and>
               \<not> exact_rejects (state_exact p) (str_or_empty fr state) \<and>
               \<not> substr_rejects (search_text p) (str_or_empty fr address)) \<and>
        filterAcceptsRow fr ((new_proxy (Some df))\<lparr>min_income := lo, max_income := hi\<rparr>) r
          = Inr True)"
proof -
  obtain price space beds income city state address where
    v: "val p df r ''Price'' = Inr price" "val p df r ''Living Space'' = Inr space"
       "val p df r ''Beds'' = Inr beds" "val p df r ''Median Household Income'' = Inr income"
       "val p df r ''City'' = Inr city" "val p df r ''State'' = Inr state"
       "val p df r ''Address'' = Inr address" and
    f: "filterAcceptsRow fr p r =
       Inr (\<not> range_rejects price (min_price p) (max_price p) \<and>
            \<not> range_rejects space (min_space p) (max_space p) \<and>
            \<not> range_rejects beds (min_beds p) (max_beds p) \<and>
            \<not> range_rejects income (min_income p) (max_income p) \<and>
            \<not> substr_rejects (city_substr p) (str_or_empty fr city) \<and>
            \<not> exact_rejects (state_exact p) (str_or_empty fr state) \<and>
            \<not> substr_rejects (search_text p) (str_or_empty fr address))"
    using filterAcceptsRow_conj [OF m rect r, of fr] by blast
  have same: "val q df r name = val p df r name" if "sourceModel q = Some df" for q name
    using that m by (simp add: val_def proxy_col_def)
  have open_at: "\<not> range_rejects w a b"
    if "no_number_at p df r name" "val p df r name = Inr w" for name w a b
    using no_number_not_rejected [OF m that] .
  have 1: "filterAcceptsRow fr p r =
          Inr (\<not> range_rejects space (min_space p) (max_space p) \<and>
               \<not> range_rejects beds (min_beds p) (max_beds p) \<and>
               \<not> range_rejects income (min_income p) (max_income p) \<and>
               \<not> substr_rejects (city_substr p) (str_or_empty fr city) \<and>
               \<not> exact_rejects (state_exact p) (str_or_empty fr state) \<and>
               \<not> substr_rejects (search_text p) (str_or_empty fr address)) \<and>
        filterAcceptsRow fr ((new_proxy (Some df))\<lparr>min_price := lo, max_price := hi\<rparr>) r
          = Inr True"
    if n: "no_number_at p df r ''Price''"
  proof
    show "filterAcceptsRow fr p r =
          Inr (\<not> range_rejects space (min_space p) (max_space p) \<and>
               \<not> range_rejects beds (min_beds p) (max_beds p) \<and>
               \<not> range_rejects income (min_income p) (max_income p) \<and>
               \<not> substr_rejects (city_substr p) (str_or_empty fr city) \<and>
               \<not> exact_rejects (state_exact p) (str_or_empty fr state) \<and>
               \<not> substr_rejects (search_text p) (str_or_empty fr address))"
      using f open_at [OF n v(1)] by simp
    let ?q = "(new_proxy (Some df))\<lparr>min_price := lo, max_price := hi\<rparr>"
    have q: "sourceModel ?q = Some df" by (simp add: new_proxy_def)
    show "filterAcceptsRow fr ?q r = Inr True"
    proof (rule new_proxy_accepts [OF rect r q])
      fix w assume "val ?q df r ''Price'' = Inr w"
      then have "val p df r ''Price'' = Inr w" using same [OF q] by simp
      then show "\<not> range_rejects w (min_price ?q) (max_price ?q)" using open_at [OF n] by blast
    qed (simp_all add: new_proxy_def)
  qed
  have 2: "filterAcceptsRow fr p r =
          Inr (\<not> range_rejects price (min_price p) (max_price p) \<and>
               \<not> range_rejects beds (min_beds p) (max_beds p) \<and>
               \<not> range_rejects income (min_income p) (max_income p) \<and>
               \<not> substr_rejects (city_substr p) (str_or_empty fr city) \<and>
               \<not> exact_rejects (state_exact p) (str_or_empty fr state) \<and>
               \<not> substr_rejects (search_text p) (str_or_empty fr address)) \<and>
        filterAcceptsRow fr ((new_proxy (Some df))\<lparr>min_space := lo, max_space := hi\<rparr>) r
          = Inr True"
    if n: "no_number_at p df r ''Living Space''"
  proof
    show "filterAcceptsRow fr p r =
          Inr (\<not> range_rejects price (min_price p) (max_price p) \<and>
               \<not> range_rejects beds (min_beds p) (max_beds p) \<and>
               \<not> range_rejects income (min_income p) (max_income p) \<and>
               \<not> substr_rejects (city_substr p) (str_or_empty fr city) \<and>
               \<not> exact_rejects (state_exact p) (str_or_empty fr state) \<and>
               \<not> substr_rejects (search_text p) (str_or_empty fr address))"
      using f open_at [OF n v(2)] by simp
    let ?q = "(new_proxy (Some df))\<lparr>min_space := lo, max_space := hi\<rparr>"
    have q: "sourceModel ?q = Some df" by (simp add: new_proxy_def)
    show "filterAcceptsRow fr ?q r = Inr True"
    proof (rule new_proxy_accepts [OF rect r q])
      fix w assume "val ?q df r ''Living Space'' = Inr w"
      then have "val p df r ''Living Space'' = Inr w" using same [OF q] by simp
      then show "\<not> range_rejects w (min_space ?q) (max_space ?q)" using open_at [OF n] by blast
    qed (simp_all add: new_proxy_def)
  qed
  have 3: "filterAcceptsRow fr p r =
          Inr (\<not> range_rejects price (min_price p) (max_price p) \<and>
               \<not> range_rejects space (min_space p) (max_space p) \<and>
               \<not> range_rejects income (min_income p) (max_income p) \<and>
               \<not> substr_rejects (city_substr p) (str_or_empty fr city) \<and>
               \<not> exact_rejects (state_exact p) (str_or_empty fr state) \<and>
               \<not> substr_rejects (search_text p) (str_or_empty fr address)) \<and>
        filterAcceptsRow fr ((new_proxy (Some df))\<lparr>min_beds := lo, max_beds := hi\<rparr>) r
          = Inr True"
    if n: "no_number_at p df r ''Beds''"
  proof
    show "filterAcceptsRow fr p r =
          Inr (\<not> range_rejects price (min_price p) (max_price p) \<and>
               \<not> range_rejects space (min_space p) (max_space p) \<and>
               \<not> range_rejects income (min_income p) (max_income p) \<and>
               \<not> substr_rejects (city_substr p) (str_or_empty fr city) \<and>
               \<not> exact_rejects (state_exact p) (str_or_empty fr state) \<and>
               \<not> substr_rejects (search_text p) (str_or_empty fr address))"
      using f open_at [OF n v(3)] by simp
    let ?q = "(new_proxy (Some df))\<lparr>min_beds := lo, max_beds := hi\<rparr>"
    have q: "sourceModel ?q = Some df" by (simp add: new_proxy_def)
    show "filterAcceptsRow fr ?q r = Inr True"
    proof (rule new_proxy_accepts [OF rect r q])
      fix w assume "val ?q df r ''Beds'' = Inr w"
      then have "val p df r ''Beds'' = Inr w" using same [OF q] by simp
      then show "\<not> range_rejects w (min_beds ?q) (max_beds ?q)" using open_at [OF n] by blast
    qed (simp_all add: new_proxy_def)
  qed
  have 4: "filterAcceptsRow fr p r =
          Inr (\<not> range_rejects price (min_price p) (max_price p) \<and>
               \<not> range_rejects space (min_space p) (max_space p) \<and>
               \<not> range_rejects beds (min_beds p) (max_beds p) \<and>
               \<not> substr_rejects (city_substr p) (str_or_empty fr city) \<and>
               \<not> exact_rejects (state_exact p) (str_or_empty fr state) \<and>
               \<not> substr_rejects (search_text p) (str_or_empty fr address)) \<and>
        filterAcceptsRow fr ((new_proxy (Some df))\<lparr>min_income := lo, max_income := hi\<rparr>) r
          = Inr True"
    if n: "no_number_at p df r ''Median Household Income''"
  proof
    show "filterAcceptsRow fr p r =
          Inr (\<not> range_rejects price (min_price p) (max_price p) \<and>
               \<not> range_rejects space (min_space p) (max_space p) \<and>
               \<not> range_rejects beds (min_beds p) (max_beds p) \<and>
               \<not> substr_rejects (city_substr p) (str_or_empty fr city) \<and>
               \<not> exact_rejects (state_exact p) (str_or_empty fr state) \<and>
               \<not> substr_rejects (search_text p) (str_or_empty fr address))"
      using f open_at [OF n v(4)] by simp
    let ?q = "(new_proxy (Some df))\<lparr>min_income := lo, max_income := hi\<rparr>"
    have q: "sourceModel ?q = Some df" by (simp add: new_proxy_def)
    show "filterAcceptsRow fr ?q r = Inr True"
    proof (rule new_proxy_accepts [OF rect r q])
      fix w assume "val ?q df r ''Median Household Income'' = Inr w"
      then have "val p df r ''Median Household Income'' = Inr w" using same [OF q] by simp
      then show "\<not> range_rejects w (min_income ?q) (max_income ?q)"
        using open_at [OF n] by blast
    qed (simp_all add: new_proxy_def)
  qed
  show ?thesis using v 1 2 3 4 by blast
qed

theorem numeric_predicates_fail_open_witness:
  "sourceModel (new_proxy (Some frame_gaps)) = Some frame_gaps \<and> rectangular frame_gaps \<and>
   (0::nat) < length (rows frame_gaps) \<and>
   no_number_at (new_proxy (Some frame_gaps)) frame_gaps 0 ''Price'' \<and>
   no_number_at (new_proxy (Some frame_gaps)) frame_gaps 0 ''Living Space'' \<and>
   no_number_at (new_proxy (Some frame_gaps)) frame_gaps 0 ''Beds'' \<and>
   no_number_at (new_proxy (Some frame_gaps)) frame_gaps 0 ''Median Household Income'' \<and>
   filterAcceptsRow whole_float_str
     ((new_proxy (Some frame_gaps))\<lparr>min_price := Some 100000, max_price := Some 250000\<rparr>) 0 = Inr True \<and>
   filterAcceptsRow whole_float_str
     ((new_proxy (Some frame_gaps))\<lparr>min_space := Some 100000, max_space := Some 250000\<rparr>) 0 = Inr True \<and>
   filterAcceptsRow whole_float_str
     ((new_proxy (Some frame_gaps))\<lparr>min_beds := Some 100000, max_beds := Some 250000\<rparr>) 0 = Inr True \<and>
   filterAcceptsRow whole_float_str
     ((new_proxy (Some frame_gaps))\<lparr>min_income := Some 100000, max_income := Some 250000\<rparr>) 0 = Inr True"
proof -
  have m: "sourceModel (new_proxy (Some frame_gaps)) = Some frame_gaps"
    by (simp add: new_proxy_def)
  have r: "(0::nat) < length (rows frame_gaps)" by (simp add: frame_gaps_def)
  show ?thesis
    using m r frame_gaps_rect frame_gaps_no_number
      numeric_predicates_fail_open [OF m frame_gaps_rect r, where fr = whole_float_str
        and lo = "Some 100000" and hi = "Some 250000"]
    by blast
qed

lemma five_prices_rect: "rectangular five_prices"
  by (simp add: rectangular_def five_prices_def)

lemma unset_cleared_form: "unset_form cleared_form"
  by (simp add: unset_form_def cleared_form_def)

subsection \<open>The stable sort only reorders\<close>

lemma set_insert_by [simp]: "set (insert_by lt x xs) = insert x (set xs)"
  by (induction xs) auto

lemma length_insert_by [simp]: "length (insert_by lt x xs) = Suc (length xs)"
  by (induction xs) auto

lemma distinct_insert_by [simp]: "distinct (insert_by lt x xs) = (x \<notin> set xs \<and> distinct xs)"
  by (induction xs) auto

lemma set_stable_sort [simp]: "set (stable_sort lt xs) = set xs"
  by (induction xs) auto

lemma length_stable_sort [simp]: "length (stable_sort lt xs) = length xs"
  by (induction xs) auto

lemma distinct_stable_sort [simp]: "distinct (stable_sort lt xs) = distinct xs"
  by (induction xs) auto

lemma set_sort_source_rows [simp]: "set (sort_source_rows df st rs) = set rs"
  by (cases "(df, st, rs)" rule: sort_source_rows.cases) auto

lemma length_sort_source_rows [simp]: "length (sort_source_rows df st rs) = length rs"
  by (cases "(df, st, rs)" rule: sort_source_rows.cases) auto

lemma distinct_sort_source_rows [simp]: "distinct (sort_source_rows df st rs) = distinct rs"
  by (cases "(df, st, rs)" rule: sort_source_rows.cases) auto

lemma proxy_rows_Some:
  "sourceModel q = Some df \<Longrightarrow> proxy_rows fr q st = sort_source_rows df st (accepted_rows fr q)"
  by (simp add: proxy_rows_def)

lemma sourceModel_on_filters_changed [simp]:
  "sourceModel (on_filters_changed w p) = sourceModel p"
  by (simp add: on_filters_changed_def)

lemma unset_accepted_rows:
  assumes u: "unset_form w" and m: "sourceModel p = Some df" and rect: "rectangular df"
  shows "accepted_rows fr (on_filters_changed w p) = [0..<length (rows df)]"
proof -
  have "\<forall>r < length (rows df). filterAcceptsRow fr (on_filters_changed w p) r = Inr True"
    using unset_accepts [OF u m rect] by blast
  then have "filter (\<lambda>r. filterAcceptsRow fr (on_filters_changed w p) r = Inr True)
               [0..<length (rows df)] = [0..<length (rows df)]"
    by (simp add: filter_id_conv)
  then show ?thesis using m by (simp add: accepted_rows_def)
qed

lemma nat_digits_small: "n < 10 \<Longrightarrow> nat_digits n = [digit_char n]"
  by (simp add: nat_digits.simps [of n])

lemma nat_digits_step:
  "10 \<le> n \<Longrightarrow> nat_digits n = nat_digits (n div 10) @ [digit_char (n mod 10)]"
  by (simp add: nat_digits.simps [of n])

lemma nat_digits_prices:
  "nat_digits 100000 = ''100000''" "nat_digits 250000 = ''250000''"
  "nat_digits 99000 = ''99000''" "nat_digits 400000 = ''400000''"
  by (simp_all add: nat_digits_small nat_digits_step digit_char_def)

lemma group3_prices:
  "group3 ''100000'' = ''100,000''" "group3 ''250000'' = ''250,000''"
  "group3 ''99000'' = ''99,000''" "group3 ''400000'' = ''400,000''"
  by code_simp+

lemma replace_prices:
  "py_replace '','' '' '' ''100,000'' = ''100 000''"
  "py_replace '','' '' '' ''250,000'' = ''250 000''"
  "py_replace '','' '' '' ''99,000'' = ''99 000''"
  "py_replace '','' '' '' ''400,000'' = ''400 000''"
  by code_simp+

lemma display_prices:
  "display (IntC 100000) = ''100 000''" "display (IntC 250000) = ''250 000''"
  "display (IntC 99000) = ''99 000''" "display (IntC 400000) = ''400 000''"
  by (simp_all add: fmt_int_def nat_digits_prices group3_prices replace_prices)

lemma five_prices_keys:
  "display_key five_prices 0 0 = Some ''100 000''"
  "display_key five_prices 0 (Suc 0) = Some ''250 000''"
  "display_key five_prices 0 2 = Some ''99 000''"
  "display_key five_prices 0 3 = Some ''400 000''"
  "display_key five_prices 0 4 = Some ''250 000''"
  by (simp_all add: display_key_def data_def iat_def five_prices_def display_prices del: display.simps)

lemma price_text_order:
  "str_less ''100 000'' ''250 000''" "str_less ''250 000'' ''400 000''"
  "str_less ''400 000'' ''99 000''" "str_less ''100 000'' ''400 000''"
  "str_less ''100 000'' ''99 000''" "str_less ''250 000'' ''99 000''"
  "\<not> str_less ''250 000'' ''100 000''" "\<not> str_less ''400 000'' ''250 000''"
  "\<not> str_less ''99 000'' ''400 000''" "\<not> str_less ''400 000'' ''100 000''"
  "\<not> str_less ''99 000'' ''100 000''" "\<not> str_less ''99 000'' ''250 000''"
  "\<not> str_less ''250 000'' ''250 000''"
  by code_simp+

lemma five_prices_descending:
  "sort_source_rows five_prices (Some (0, DescendingOrder)) [0, 1, 2, 3, 4] = [2, 3, 1, 4, 0]"
  by (simp add: lessThan_rows_def five_prices_keys price_text_order)

lemma five_prices_ascending:
  "sort_source_rows five_prices (Some (0, AscendingOrder)) [0, 1, 2, 3, 4] = [0, 1, 4, 3, 2]"
  by (simp add: lessThan_rows_def five_prices_keys price_text_order)

text \<open>
  Claim C4 does not hold as stated.  After \<^verbatim>\<open>_reset_filters\<close> every bound is unset and
  every text is empty, but the view keeps its sort: with the five prices of scenario A and
  a descending sort on the Price column the rows of the view are 2, 3, 1, 4, 0, not the
  source order 0, 1, 2, 3, 4.
\<close>

theorem reset_keeps_sort_order:
  "unset_form cleared_form \<and>
   proxy_rows whole_float_str (reset_filters (new_proxy (Some five_prices)))
     (Some (0, DescendingOrder)) = [2, 3, 1, 4, 0]"
proof -
  have m: "sourceModel (new_proxy (Some five_prices)) = Some five_prices"
    by (simp add: new_proxy_def)
  have "accepted_rows whole_float_str (reset_filters (new_proxy (Some five_prices)))
          = [0..<length (rows five_prices)]"
    unfolding reset_filters_def
    by (rule unset_accepted_rows [OF unset_cleared_form m five_prices_rect])
  moreover have "[0..<length (rows five_prices)] = [0, 1, 2, 3, 4]"
    by (simp add: five_prices_def upt_rec)
  ultimately show ?thesis
    using m unset_cleared_form five_prices_descending
    by (simp add: proxy_rows_def reset_filters_def)
qed

text \<open>
  Claim C4, amended.  A spin box that shows 0 leaves its bound unset (\<open>None\<close>), for each
  of the eight bounds.  When every spin box shows 0 and every text field is empty (the
  state that \<^verbatim>\<open>_reset_filters\<close> sets), the proxy accepts every row of the frame; the rows
  of the view are then all source rows, each once: in their original order when the view
  has no sort column, and otherwise in the order that the sort of the view, which a reset
  does not clear, gives to the full row set.
\<close>

theorem zero_bounds_are_unset:
  assumes m: "sourceModel p = Some df" and rect: "rectangular df"
  shows "min_price (on_filters_changed (w\<lparr>spin_min_price := 0\<rparr>) p) = None \<and>
         max_price (on_filters_changed (w\<lparr>spin_max_price := 0\<rparr>) p) = None \<and>
         min_space (on_filters_changed (w\<lparr>spin_min_space := 0\<rparr>) p) = None \<and>
         max_space (on_filters_changed (w\<lparr>spin_max_space := 0\<rparr>) p) = None \<and>
         min_beds (on_filters_changed (w\<lparr>spin_min_beds := 0\<rparr>) p) = None \<and>
         max_beds (on_filters_changed (w\<lparr>spin_max_beds := 0\<rparr>) p) = None \<and>
         min_income (on_filters_changed (w\<lparr>spin_min_income := 0\<rparr>) p) = None \<and>
         max_income (on_filters_changed (w\<lparr>spin_max_income := 0\<rparr>) p) = None \<and>
         (unset_form w \<longrightarrow>
            (\<forall>r < length (rows df). filterAcceptsRow fr (on_filters_changed w p) r = Inr True) \<and>
            accepted_rows fr (on_filters_changed w p) = [0..<length (rows df)] \<and>
            proxy_rows fr (on_filters_changed w p) None = [0..<length (rows df)] \<and>
            (\<forall>st. proxy_rows fr (on_filters_changed w p) st
                    = sort_source_rows df st [0..<length (rows df)] \<and>
                  set (proxy_rows fr (on_filters_changed w p) st) = {0..<length (rows df)} \<and>
                  distinct (proxy_rows fr (on_filters_changed w p) st))) \<and>
         (\<forall>st. proxy_rows fr (reset_filters p) st = sort_source_rows df st [0..<length (rows df)])"
proof -
  have bounds:
    "min_price (on_filters_changed (w\<lparr>spin_min_price := 0\<rparr>) p) = None"
    "max_price (on_filters_changed (w\<lparr>spin_max_price := 0\<rparr>) p) = None"
    "min_space (on_filters_changed (w\<lparr>spin_min_space := 0\<rparr>) p) = None"
    "max_space (on_filters_changed (w\<lparr>spin_max_space := 0\<rparr>) p) = None"
    "min_beds (on_filters_changed (w\<lparr>spin_min_beds := 0\<rparr>) p) = None"
    "max_beds (on_filters_changed (w\<lparr>spin_max_beds := 0\<rparr>) p) = None"
    "min_income (on_filters_changed (w\<lparr>spin_min_income := 0\<rparr>) p) = None"
    "max_income (on_filters_changed (w\<lparr>spin_max_income := 0\<rparr>) p) = None"
    by (simp_all add: on_filters_changed_def or_None_def zero_to_None_def)
  have view: "proxy_rows fr (on_filters_changed v p) st
                = sort_source_rows df st [0..<length (rows df)]"
    if u: "unset_form v" for v st
    using unset_accepted_rows [OF u m rect, of fr] m by (simp add: proxy_rows_def)
  have rest: "(\<forall>r < length (rows df). filterAcceptsRow fr (on_filters_changed w p) r = Inr True) \<and>
            accepted_rows fr (on_filters_changed w p) = [0..<length (rows df)] \<and>
            proxy_rows fr (on_filters_changed w p) None = [0..<length (rows df)] \<and>
            (\<forall>st. proxy_rows fr (on_filters_changed w p) st
                    = sort_source_rows df st [0..<length (rows df)] \<and>
                  set (proxy_rows fr (on_filters_changed w p) st) = {0..<length (rows df)} \<and>
                  distinct (proxy_rows fr (on_filters_changed w p) st))"
    if u: "unset_form w"
  proof -
    have acc: "\<forall>r < length (rows df). filterAcceptsRow fr (on_filters_changed w p) r = Inr True"
      using unset_accepts [OF u m rect] by blast
    show ?thesis
      using acc unset_accepted_rows [OF u m rect, of fr] view [OF u] by simp
  qed
  have reset: "\<forall>st. proxy_rows fr (reset_filters p) st
                 = sort_source_rows df st [0..<length (rows df)]"
    using view [OF unset_cleared_form] by (simp add: reset_filters_def)
  show ?thesis using bounds rest reset by blast
qed

theorem zero_bounds_are_unset_witness:
  "sourceModel (new_proxy (Some five_prices)) = Some five_prices \<and> rectangular five_prices \<and>
   unset_form cleared_form \<and>
   filterAcceptsRow whole_float_str (on_filters_changed cleared_form (new_proxy (Some five_prices))) 2
     = Inr True \<and>
   proxy_rows whole_float_str (on_filters_changed cleared_form (new_proxy (Some five_prices))) None
     = [0, 1, 2, 3, 4] \<and>
   proxy_rows whole_float_str (reset_filters (new_proxy (Some five_prices)))
     (Some (0, AscendingOrder)) = [0, 1, 4, 3, 2]"
proof -
  have m: "sourceModel (new_proxy (Some five_prices)) = Some five_prices"
    by (simp add: new_proxy_def)
  have n: "length (rows five_prices) = 5" by (simp add: five_prices_def)
  have up: "[0..<5] = [0, 1, 2, 3, 4::nat]" by (simp add: upt_rec)
  show ?thesis
    using m unset_cleared_form n up five_prices_rect five_prices_ascending
      zero_bounds_are_unset [OF m five_prices_rect, where w = cleared_form
        and fr = whole_float_str]
    by simp
qed

subsection \<open>Inclusive bounds\<close>





lemma new_proxy_unset_accepts:
  assumes rect: "rectangular df" and r: "r < length (rows df)"
  shows "filterAcceptsRow fr (new_proxy (Some df)) r = Inr True"
proof -
  have q: "sourceModel (new_proxy (Some df)) = Some df" by (simp add: new_proxy_def)
  show ?thesis
    by (rule new_proxy_accepts [OF rect r q]) (simp_all add: new_proxy_def)
qed

lemma val_new_proxy:
  "sourceModel p = Some df \<Longrightarrow> val (new_proxy (Some df)) df r name = val p df r name"
  by (simp add: val_def proxy_col_def new_proxy_def)

subsection \<open>Selections of the dynamic map\<close>










subsection \<open>Scenario A\<close>







subsection \<open>Text predicates\<close>

lemma val_update_text [simp]:
  "val (p\<lparr>city_substr := t\<rparr>) = val p"
  "val (p\<lparr>state_exact := t\<rparr>) = val p"
  "val (p\<lparr>search_text := t\<rparr>) = val p"
  by (simp_all add: val_def proxy_col_def fun_eq_iff)

lemma substr_rejects_Nil [simp]: "\<not> substr_rejects [] text"
  by (simp add: substr_rejects_def)

lemma exact_rejects_Nil [simp]: "\<not> exact_rejects [] text"
  by (simp add: exact_rejects_def)


text \<open>The City block and the Address block: the row is rejected when the needle is not
  found, and otherwise the answer is that of the proxy without this needle.\<close>

lemma city_block:
  assumes m: "sourceModel p = Some df" and rect: "rectangular df" and r: "r < length (rows df)"
    and v: "val p df r ''City'' = Inr city"
  shows "filterAcceptsRow fr p r =
     (if substr_rejects (city_substr p) (str_or_empty fr city) then Inr False
      else filterAcceptsRow fr (p\<lparr>city_substr := []\<rparr>) r)"
proof -
  let ?q = "p\<lparr>city_substr := []\<rparr>"
  have q: "sourceModel ?q = Some df" using m by simp
  show ?thesis
    using filterAcceptsRow_conj [OF m rect r, of fr] filterAcceptsRow_conj [OF q rect r, of fr] v
    by auto
qed

lemma address_block:
  assumes m: "sourceModel p = Some df" and rect: "rectangular df" and r: "r < length (rows df)"
    and v: "val p df r ''Address'' = Inr address"
  shows "filterAcceptsRow fr p r =
     (if substr_rejects (search_text p) (str_or_empty fr address) then Inr False
      else filterAcceptsRow fr (p\<lparr>search_text := []\<rparr>) r)"
proof -
  let ?q = "p\<lparr>search_text := []\<rparr>"
  have q: "sourceModel ?q = Some df" using m by simp
  show ?thesis
    using filterAcceptsRow_conj [OF m rect r, of fr] filterAcceptsRow_conj [OF q rect r, of fr] v
    by auto
qed

lemma state_block:
  assumes m: "sourceModel p = Some df" and rect: "rectangular df" and r: "r < length (rows df)"
    and v: "val p df r ''State'' = Inr state"
  shows "filterAcceptsRow fr p r =
     (if exact_rejects (state_exact p) (str_or_empty fr state) then Inr False
      else filterAcceptsRow fr (p\<lparr>state_exact := []\<rparr>) r)"
proof -
  let ?q = "p\<lparr>state_exact := []\<rparr>"
  have q: "sourceModel ?q = Some df" using m by simp
  show ?thesis
    using filterAcceptsRow_conj [OF m rect r, of fr] filterAcceptsRow_conj [OF q rect r, of fr] v
    by auto
qed

text \<open>A proxy whose only active predicate is one text.\<close>

lemma only_city:
  assumes m: "sourceModel p = Some df" and rect: "rectangular df" and r: "r < length (rows df)"
    and v: "val p df r ''City'' = Inr city"
  shows "filterAcceptsRow fr ((new_proxy (Some df))\<lparr>city_substr := needle\<rparr>) r
           = Inr (\<not> substr_rejects needle (str_or_empty fr city))"
proof -
  let ?q = "(new_proxy (Some df))\<lparr>city_substr := needle\<rparr>"
  have q: "sourceModel ?q = Some df" by (simp add: new_proxy_def)
  have v': "val ?q df r ''City'' = Inr city" using v val_new_proxy [OF m] by simp
  have "?q\<lparr>city_substr := []\<rparr> = new_proxy (Some df)" by (simp add: new_proxy_def)
  then show ?thesis
    using city_block [OF q rect r v', of fr] new_proxy_unset_accepts [OF rect r, of fr] by simp
qed

lemma only_address:
  assumes m: "sourceModel p = Some df" and rect: "rectangular df" and r: "r < length (rows df)"
    and v: "val p df r ''Address'' = Inr address"
  shows "filterAcceptsRow fr ((new_proxy (Some df))\<lparr>search_text := needle\<rparr>) r
           = Inr (\<not> substr_rejects needle (str_or_empty fr address))"
proof -
  let ?q = "(new_proxy (Some df))\<lparr>search_text := needle\<rparr>"
  have q: "sourceModel ?q = Some df" by (simp add: new_proxy_def)
  have v': "val ?q df r ''Address'' = Inr address" using v val_new_proxy [OF m] by simp
  have "?q\<lparr>search_text := []\<rparr> = new_proxy (Some df)" by (simp add: new_proxy_def)
  then show ?thesis
    using address_block [OF q rect r v', of fr] new_proxy_unset_accepts [OF rect r, of fr] by simp
qed

lemma only_state:
  assumes m: "sourceModel p = Some df" and rect: "rectangular df" and r: "r < length (rows df)"
    and v: "val p df r ''State'' = Inr state"
  shows "filterAcceptsRow fr ((new_proxy (Some df))\<lparr>state_exact := literal\<rparr>) r
           = Inr (\<not> exact_rejects literal (str_or_empty fr state))"
proof -
  let ?q = "(new_proxy (Some df))\<lparr>state_exact := literal\<rparr>"
  have q: "sourceModel ?q = Some df" by (simp add: new_proxy_def)
  have v': "val ?q df r ''State'' = Inr state" using v val_new_proxy [OF m] by simp
  have "?q\<lparr>state_exact := []\<rparr> = new_proxy (Some df)" by (simp add: new_proxy_def)
  then show ?thesis
    using state_block [OF q rect r v', of fr] new_proxy_unset_accepts [OF rect r, of fr] by simp
qed

subsection \<open>The City filter of the dynamic map\<close>

lemma and_then_Inr_id [simp]: "and_then x Inr = x"
  by (cases x) simp_all









subsection \<open>Missing text\<close>

lemma lower_nan: "lower ''nan'' = ''nan''"
  by code_simp

lemma nan_text [simp]: "str_or_empty fr NaNC = ''nan''"
  by (simp add: str_or_empty_def)

lemma nan_needles:
  "py_in (lower ''na'') ''nan''" "py_in (lower ''an'') ''nan''" "py_in (lower ''AN'') ''nan''"
  "py_in (lower ''nan'') ''nan''" "\<not> py_in (lower ''x'') ''nan''"
  "\<not> py_in (lower ''nant'') ''nan''"
  by code_simp+

lemma nan_row_rect: "rectangular nan_row"
  by (simp add: rectangular_def nan_row_def)

lemma nan_row_cells:
  "val (new_proxy (Some nan_row)) nan_row 0 ''City'' = Inr NaNC"
  "val (new_proxy (Some nan_row)) nan_row 0 ''State'' = Inr NaNC"
  "val (new_proxy (Some nan_row)) nan_row 0 ''Address'' = Inr NaNC"
  by (simp_all add: val_def proxy_col_def new_proxy_def nan_row_def iat_def)

text \<open>
  Claim C10 does not hold as stated for the State predicate.  The text of a missing State
  is \<^verbatim>\<open>nan\<close> as well, but the predicate compares for equality: the literal \<^verbatim>\<open>na\<close>
  occurs in \<^verbatim>\<open>nan\<close> and still the row is rejected.
\<close>

theorem nan_state_needs_equality:
  "val (new_proxy (Some nan_row)) nan_row 0 ''State'' = Inr NaNC \<and>
   py_in (lower ''na'') (lower ''nan'') \<and>
   filterAcceptsRow whole_float_str ((new_proxy (Some nan_row))\<lparr>state_exact := ''na''\<rparr>) 0
     = Inr False"
proof -
  have m: "sourceModel (new_proxy (Some nan_row)) = Some nan_row" by (simp add: new_proxy_def)
  have r: "(0::nat) < length (rows nan_row)" by (simp add: nan_row_def)
  show ?thesis
    using only_state [OF m nan_row_rect r nan_row_cells(2), of whole_float_str "''na''"]
      nan_row_cells(2) nan_needles(1)
    by (simp add: exact_rejects_def lower_nan)
qed

text \<open>
  Claim C10, amended.  For a row whose City cell is in the frame but missing (NaN), the
  City predicate of \<^verbatim>\<open>filterAcceptsRow\<close> reads the text \<^verbatim>\<open>nan\<close>, not the empty text:
  the row passes the predicate exactly when the needle is empty or its lower-case form
  occurs in \<^verbatim>\<open>nan\<close> (as do \<^verbatim>\<open>na\<close>, \<^verbatim>\<open>an\<close> and \<^verbatim>\<open>AN\<close>, unlike \<^verbatim>\<open>x\<close>).  The same
  holds for the Address predicate.  The State predicate reads \<^verbatim>\<open>nan\<close> too, but it is an
  exact comparison: the row passes it exactly when the literal is empty or is \<^verbatim>\<open>nan\<close>.
\<close>

theorem missing_text_reads_nan:
  assumes m: "sourceModel p = Some df" and rect: "rectangular df" and r: "r < length (rows df)"
  shows
   "str_or_empty fr NaNC = ''nan'' \<and>
    (val p df r ''City'' = Inr NaNC \<longrightarrow>
       filterAcceptsRow fr p r =
         (if city_substr p = [] \<or> py_in (lower (city_substr p)) ''nan''
          then filterAcceptsRow fr (p\<lparr>city_substr := []\<rparr>) r else Inr False) \<and>
       filterAcceptsRow fr ((new_proxy (Some df))\<lparr>city_substr := needle\<rparr>) r
         = Inr (needle = [] \<or> py_in (lower needle) ''nan'')) \<and>
    (val p df r ''Address'' = Inr NaNC \<longrightarrow>
       filterAcceptsRow fr p r =
         (if search_text p = [] \<or> py_in (lower (search_text p)) ''nan''
          then filterAcceptsRow fr (p\<lparr>search_text := []\<rparr>) r else Inr False) \<and>
       filterAcceptsRow fr ((new_proxy (Some df))\<lparr>search_text := needle\<rparr>) r
         = Inr (needle = [] \<or> py_in (lower needle) ''nan'')) \<and>
    (val p df r ''State'' = Inr NaNC \<longrightarrow>
       filterAcceptsRow fr p r =
         (if state_exact p = [] \<or> state_exact p = ''nan''
          then filterAcceptsRow fr (p\<lparr>state_exact := []\<rparr>) r else Inr False) \<and>
       filterAcceptsRow fr ((new_proxy (Some df))\<lparr>state_exact := needle\<rparr>) r
         = Inr (needle = [] \<or> needle = ''nan'')) \<and>
    py_in (lower ''na'') ''nan'' \<and> py_in (lower ''an'') ''nan'' \<and> py_in (lower ''AN'') ''nan'' \<and>
    \<not> py_in (lower ''x'') ''nan''"
proof -
  have 1: "filterAcceptsRow fr p r =
         (if city_substr p = [] \<or> py_in (lower (city_substr p)) ''nan''
          then filterAcceptsRow fr (p\<lparr>city_substr := []\<rparr>) r else Inr False) \<and>
       filterAcceptsRow fr ((new_proxy (Some df))\<lparr>city_substr := needle\<rparr>) r
         = Inr (needle = [] \<or> py_in (lower needle) ''nan'')"
    if v: "val p df r ''City'' = Inr NaNC"
    using city_block [OF m rect r v, of fr] only_city [OF m rect r v, of fr needle]
    by (simp add: substr_rejects_def lower_nan)
  have 2: "filterAcceptsRow fr p r =
         (if search_text p = [] \<or> py_in (lower (search_text p)) ''nan''
          then filterAcceptsRow fr (p\<lparr>search_text := []\<rparr>) r else Inr False) \<and>
       filterAcceptsRow fr ((new_proxy (Some df))\<lparr>search_text := needle\<rparr>) r
         = Inr (needle = [] \<or> py_in (lower needle) ''nan'')"
    if v: "val p df r ''Address'' = Inr NaNC"
    using address_block [OF m rect r v, of fr] only_address [OF m rect r v, of fr needle]
    by (simp add: substr_rejects_def lower_nan)
  have 3: "filterAcceptsRow fr p r =
         (if state_exact p = [] \<or> state_exact p = ''nan''
          then filterAcceptsRow fr (p\<lparr>state_exact := []\<rparr>) r else Inr False) \<and>
       filterAcceptsRow fr ((new_proxy (Some df))\<lparr>state_exact := needle\<rparr>) r
         = Inr (needle = [] \<or> needle = ''nan'')"
    if v: "val p df r ''State'' = Inr NaNC"
    using state_block [OF m rect r v, of fr] only_state [OF m rect r v, of fr needle]
    by (auto simp: exact_rejects_def)
  show ?thesis using 1 2 3 nan_needles by simp
qed

theorem missing_text_reads_nan_witness:
  "sourceModel (new_proxy (Some nan_row)) = Some nan_row \<and> rectangular nan_row \<and>
   (0::nat) < length (rows nan_row) \<and>
   val (new_proxy (Some nan_row)) nan_row 0 ''City'' = Inr NaNC \<and>
   val (new_proxy (Some nan_row)) nan_row 0 ''Address'' = Inr NaNC \<and>
   val (new_proxy (Some nan_row)) nan_row 0 ''State'' = Inr NaNC \<and>
   filterAcceptsRow whole_float_str ((new_proxy (Some nan_row))\<lparr>city_substr := ''na''\<rparr>) 0
     = Inr True \<and>
   filterAcceptsRow whole_float_str ((new_proxy (Some nan_row))\<lparr>city_substr := ''x''\<rparr>) 0
     = Inr False \<and>
   filterAcceptsRow whole_float_str ((new_proxy (Some nan_row))\<lparr>search_text := ''AN''\<rparr>) 0
     = Inr True \<and>
   filterAcceptsRow whole_float_str ((new_proxy (Some nan_row))\<lparr>state_exact := ''nan''\<rparr>) 0
     = Inr True \<and>
   filterAcceptsRow whole_float_str ((new_proxy (Some nan_row))\<lparr>state_exact := ''an''\<rparr>) 0
     = Inr False"
proof -
  have m: "sourceModel (new_proxy (Some nan_row)) = Some nan_row" by (simp add: new_proxy_def)
  have r: "(0::nat) < length (rows nan_row)" by (simp add: nan_row_def)
  show ?thesis
    using m r nan_row_rect nan_row_cells nan_needles
      missing_text_reads_nan [OF m nan_row_rect r, where fr = whole_float_str and needle = "''na''"]
      missing_text_reads_nan [OF m nan_row_rect r, where fr = whole_float_str and needle = "''x''"]
      missing_text_reads_nan [OF m nan_row_rect r, where fr = whole_float_str and needle = "''AN''"]
      missing_text_reads_nan [OF m nan_row_rect r, where fr = whole_float_str and needle = "''nan''"]
      missing_text_reads_nan [OF m nan_row_rect r, where fr = whole_float_str and needle = "''an''"]
    by simp
qed

section \<open>Properties of the sort and of the export\<close>

subsection \<open>The order of texts\<close>

lemma str_less_irrefl [simp]: "\<not> str_less s s"
  by (induction s) auto





lemma variant_less_irrefl [simp]: "\<not> variant_less a a"
  by (cases a) auto



subsection \<open>The stable sort sorts and is stable\<close>












subsection \<open>Numbers sorted as texts\<close>











end
